theory Spec2Isabelle
  imports Main
begin

section \<open>JavaScript strings and arrays\<close>

text \<open>
  A JavaScript string is its sequence of UTF-16 code units, each a number from 0 to
  0xFFFF; two strings are equal under \<^verbatim>\<open>===\<close> when their sequences are. The function
  \<open>utf16\<close> writes a string of the Latin-1 range, whose characters are single code
  units, as such a sequence.
\<close>

type_synonym jsstring = "int list"

definition utf16 :: "string \<Rightarrow> jsstring" where
  "utf16 s = map of_char s"

subsection \<open>\<^verbatim>\<open>String.prototype.toUpperCase\<close>\<close>

text \<open>
  \<^verbatim>\<open>toUpperCase\<close> reads the string as code points (a leading surrogate followed by a
  trailing one is one code point, any other code unit stands for itself), maps each code
  point by the locale-insensitive upper-case mapping of the Unicode Default Case Conversion
  and writes the result back as code units.
\<close>

definition isLeadingSurrogate :: "int \<Rightarrow> bool" where
  "isLeadingSurrogate c = (0xD800 \<le> c \<and> c \<le> 0xDBFF)"

definition isTrailingSurrogate :: "int \<Rightarrow> bool" where
  "isTrailingSurrogate c = (0xDC00 \<le> c \<and> c \<le> 0xDFFF)"

fun StringToCodePoints :: "jsstring \<Rightarrow> int list" where
  "StringToCodePoints [] = []"
| "StringToCodePoints [c] = [c]"
| "StringToCodePoints (c # d # cs) =
     (if isLeadingSurrogate c \<and> isTrailingSurrogate d
      then (0x10000 + (c - 0xD800) * 0x400 + (d - 0xDC00)) # StringToCodePoints cs
      else c # StringToCodePoints (d # cs))"

definition UTF16EncodeCodePoint :: "int \<Rightarrow> jsstring" where
  "UTF16EncodeCodePoint cp =
     (if cp \<le> 0xFFFF then [cp]
      else [(cp - 0x10000) div 0x400 + 0xD800, (cp - 0x10000) mod 0x400 + 0xDC00])"

definition CodePointsToString :: "int list \<Rightarrow> jsstring" where
  "CodePointsToString cps = concat (map UTF16EncodeCodePoint cps)"

text \<open>
  The upper-case mapping of Unicode 14.0, in two tables. A code point with a single
  upper-case code point (\<^verbatim>\<open>UnicodeData.txt\<close>) lies in a range
  \<open>(lo, hi, stride, img)\<close>: the code points \<open>lo\<close>, \<open>lo + stride\<close>, ... up to \<open>hi\<close> map to
  \<open>img\<close>, \<open>img + stride\<close>, ... in this order. A code point whose upper-case form is
  several code points (the unconditional mappings of \<^verbatim>\<open>SpecialCasing.txt\<close>) is listed
  with that form. Every other code point is its own upper-case form.
\<close>

definition toUppercase_ranges :: "(int \<times> int \<times> int \<times> int) list" where
  "toUppercase_ranges =
     [(0x61, 0x7A, 1, 0x41), (0xB5, 0xB5, 1, 0x39C), (0xE0, 0xF6, 1, 0xC0),
      (0xF8, 0xFE, 1, 0xD8), (0xFF, 0xFF, 1, 0x178), (0x101, 0x12F, 2, 0x100),
      (0x131, 0x131, 1, 0x49), (0x133, 0x137, 2, 0x132), (0x13A, 0x148, 2, 0x139),
      (0x14B, 0x177, 2, 0x14A), (0x17A, 0x17E, 2, 0x179), (0x17F, 0x17F, 1, 0x53),
      (0x180, 0x180, 1, 0x243), (0x183, 0x185, 2, 0x182), (0x188, 0x188, 1, 0x187),
      (0x18C, 0x18C, 1, 0x18B), (0x192, 0x192, 1, 0x191), (0x195, 0x195, 1, 0x1F6),
      (0x199, 0x199, 1, 0x198), (0x19A, 0x19A, 1, 0x23D), (0x19E, 0x19E, 1, 0x220),
      (0x1A1, 0x1A5, 2, 0x1A0), (0x1A8, 0x1A8, 1, 0x1A7), (0x1AD, 0x1AD, 1, 0x1AC),
      (0x1B0, 0x1B0, 1, 0x1AF), (0x1B4, 0x1B6, 2, 0x1B3), (0x1B9, 0x1B9, 1, 0x1B8),
      (0x1BD, 0x1BD, 1, 0x1BC), (0x1BF, 0x1BF, 1, 0x1F7), (0x1C5, 0x1C5, 1, 0x1C4),
      (0x1C6, 0x1C6, 1, 0x1C4), (0x1C8, 0x1C8, 1, 0x1C7), (0x1C9, 0x1C9, 1, 0x1C7),
      (0x1CB, 0x1CB, 1, 0x1CA), (0x1CC, 0x1CC, 1, 0x1CA), (0x1CE, 0x1DC, 2, 0x1CD),
      (0x1DD, 0x1DD, 1, 0x18E), (0x1DF, 0x1EF, 2, 0x1DE), (0x1F2, 0x1F2, 1, 0x1F1),
      (0x1F3, 0x1F3, 1, 0x1F1), (0x1F5, 0x1F5, 1, 0x1F4), (0x1F9, 0x21F, 2, 0x1F8),
      (0x223, 0x233, 2, 0x222), (0x23C, 0x23C, 1, 0x23B), (0x23F, 0x240, 1, 0x2C7E),
      (0x242, 0x242, 1, 0x241), (0x247, 0x24F, 2, 0x246), (0x250, 0x250, 1, 0x2C6F),
      (0x251, 0x251, 1, 0x2C6D), (0x252, 0x252, 1, 0x2C70), (0x253, 0x253, 1, 0x181),
      (0x254, 0x254, 1, 0x186), (0x256, 0x257, 1, 0x189), (0x259, 0x259, 1, 0x18F),
      (0x25B, 0x25B, 1, 0x190), (0x25C, 0x25C, 1, 0xA7AB), (0x260, 0x260, 1, 0x193),
      (0x261, 0x261, 1, 0xA7AC), (0x263, 0x263, 1, 0x194), (0x265, 0x265, 1, 0xA78D),
      (0x266, 0x266, 1, 0xA7AA), (0x268, 0x268, 1, 0x197), (0x269, 0x269, 1, 0x196),
      (0x26A, 0x26A, 1, 0xA7AE), (0x26B, 0x26B, 1, 0x2C62), (0x26C, 0x26C, 1, 0xA7AD),
      (0x26F, 0x26F, 1, 0x19C), (0x271, 0x271, 1, 0x2C6E), (0x272, 0x272, 1, 0x19D),
      (0x275, 0x275, 1, 0x19F), (0x27D, 0x27D, 1, 0x2C64), (0x280, 0x280, 1, 0x1A6),
      (0x282, 0x282, 1, 0xA7C5), (0x283, 0x283, 1, 0x1A9), (0x287, 0x287, 1, 0xA7B1),
      (0x288, 0x288, 1, 0x1AE), (0x289, 0x289, 1, 0x244), (0x28A, 0x28B, 1, 0x1B1),
      (0x28C, 0x28C, 1, 0x245), (0x292, 0x292, 1, 0x1B7), (0x29D, 0x29D, 1, 0xA7B2),
      (0x29E, 0x29E, 1, 0xA7B0), (0x345, 0x345, 1, 0x399), (0x371, 0x373, 2, 0x370),
      (0x377, 0x377, 1, 0x376), (0x37B, 0x37D, 1, 0x3FD), (0x3AC, 0x3AC, 1, 0x386),
      (0x3AD, 0x3AF, 1, 0x388), (0x3B1, 0x3C1, 1, 0x391), (0x3C2, 0x3C2, 1, 0x3A3),
      (0x3C3, 0x3CB, 1, 0x3A3), (0x3CC, 0x3CC, 1, 0x38C), (0x3CD, 0x3CE, 1, 0x38E),
      (0x3D0, 0x3D0, 1, 0x392), (0x3D1, 0x3D1, 1, 0x398), (0x3D5, 0x3D5, 1, 0x3A6),
      (0x3D6, 0x3D6, 1, 0x3A0), (0x3D7, 0x3D7, 1, 0x3CF), (0x3D9, 0x3EF, 2, 0x3D8),
      (0x3F0, 0x3F0, 1, 0x39A), (0x3F1, 0x3F1, 1, 0x3A1), (0x3F2, 0x3F2, 1, 0x3F9),
      (0x3F3, 0x3F3, 1, 0x37F), (0x3F5, 0x3F5, 1, 0x395), (0x3F8, 0x3F8, 1, 0x3F7),
      (0x3FB, 0x3FB, 1, 0x3FA), (0x430, 0x44F, 1, 0x410), (0x450, 0x45F, 1, 0x400),
      (0x461, 0x481, 2, 0x460), (0x48B, 0x4BF, 2, 0x48A), (0x4C2, 0x4CE, 2, 0x4C1),
      (0x4CF, 0x4CF, 1, 0x4C0), (0x4D1, 0x52F, 2, 0x4D0), (0x561, 0x586, 1, 0x531),
      (0x10D0, 0x10FA, 1, 0x1C90), (0x10FD, 0x10FF, 1, 0x1CBD), (0x13F8, 0x13FD, 1, 0x13F0),
      (0x1C80, 0x1C80, 1, 0x412), (0x1C81, 0x1C81, 1, 0x414), (0x1C82, 0x1C82, 1, 0x41E),
      (0x1C83, 0x1C84, 1, 0x421), (0x1C85, 0x1C85, 1, 0x422), (0x1C86, 0x1C86, 1, 0x42A),
      (0x1C87, 0x1C87, 1, 0x462), (0x1C88, 0x1C88, 1, 0xA64A), (0x1D79, 0x1D79, 1, 0xA77D),
      (0x1D7D, 0x1D7D, 1, 0x2C63), (0x1D8E, 0x1D8E, 1, 0xA7C6), (0x1E01, 0x1E95, 2, 0x1E00),
      (0x1E9B, 0x1E9B, 1, 0x1E60), (0x1EA1, 0x1EFF, 2, 0x1EA0), (0x1F00, 0x1F07, 1, 0x1F08),
      (0x1F10, 0x1F15, 1, 0x1F18), (0x1F20, 0x1F27, 1, 0x1F28), (0x1F30, 0x1F37, 1, 0x1F38),
      (0x1F40, 0x1F45, 1, 0x1F48), (0x1F51, 0x1F57, 2, 0x1F59), (0x1F60, 0x1F67, 1, 0x1F68),
      (0x1F70, 0x1F71, 1, 0x1FBA), (0x1F72, 0x1F75, 1, 0x1FC8), (0x1F76, 0x1F77, 1, 0x1FDA),
      (0x1F78, 0x1F79, 1, 0x1FF8), (0x1F7A, 0x1F7B, 1, 0x1FEA), (0x1F7C, 0x1F7D, 1, 0x1FFA),
      (0x1FB0, 0x1FB1, 1, 0x1FB8), (0x1FBE, 0x1FBE, 1, 0x399), (0x1FD0, 0x1FD1, 1, 0x1FD8),
      (0x1FE0, 0x1FE1, 1, 0x1FE8), (0x1FE5, 0x1FE5, 1, 0x1FEC), (0x214E, 0x214E, 1, 0x2132),
      (0x2170, 0x217F, 1, 0x2160), (0x2184, 0x2184, 1, 0x2183), (0x24D0, 0x24E9, 1, 0x24B6),
      (0x2C30, 0x2C5F, 1, 0x2C00), (0x2C61, 0x2C61, 1, 0x2C60), (0x2C65, 0x2C65, 1, 0x23A),
      (0x2C66, 0x2C66, 1, 0x23E), (0x2C68, 0x2C6C, 2, 0x2C67), (0x2C73, 0x2C73, 1, 0x2C72),
      (0x2C76, 0x2C76, 1, 0x2C75), (0x2C81, 0x2CE3, 2, 0x2C80), (0x2CEC, 0x2CEE, 2, 0x2CEB),
      (0x2CF3, 0x2CF3, 1, 0x2CF2), (0x2D00, 0x2D25, 1, 0x10A0), (0x2D27, 0x2D27, 1, 0x10C7),
      (0x2D2D, 0x2D2D, 1, 0x10CD), (0xA641, 0xA66D, 2, 0xA640), (0xA681, 0xA69B, 2, 0xA680),
      (0xA723, 0xA72F, 2, 0xA722), (0xA733, 0xA76F, 2, 0xA732), (0xA77A, 0xA77C, 2, 0xA779),
      (0xA77F, 0xA787, 2, 0xA77E), (0xA78C, 0xA78C, 1, 0xA78B), (0xA791, 0xA793, 2, 0xA790),
      (0xA794, 0xA794, 1, 0xA7C4), (0xA797, 0xA7A9, 2, 0xA796), (0xA7B5, 0xA7C3, 2, 0xA7B4),
      (0xA7C8, 0xA7CA, 2, 0xA7C7), (0xA7D1, 0xA7D1, 1, 0xA7D0), (0xA7D7, 0xA7D9, 2, 0xA7D6),
      (0xA7F6, 0xA7F6, 1, 0xA7F5), (0xAB53, 0xAB53, 1, 0xA7B3), (0xAB70, 0xABBF, 1, 0x13A0),
      (0xFF41, 0xFF5A, 1, 0xFF21), (0x10428, 0x1044F, 1, 0x10400), (0x104D8, 0x104FB, 1, 0x104B0),
      (0x10597, 0x105BB, 2, 0x10570), (0x10598, 0x105A0, 2, 0x10571), (0x105A4, 0x105B0, 2, 0x1057D),
      (0x105B4, 0x105B8, 2, 0x1058D), (0x105BC, 0x105BC, 1, 0x10595), (0x10CC0, 0x10CF2, 1, 0x10C80),
      (0x118C0, 0x118DF, 1, 0x118A0), (0x16E60, 0x16E7F, 1, 0x16E40), (0x1E922, 0x1E943, 1, 0x1E900)]"

definition toUppercase_special :: "(int \<times> int list) list" where
  "toUppercase_special =
     [(0xDF, [0x53, 0x53]), (0x149, [0x2BC, 0x4E]), (0x1F0, [0x4A, 0x30C]),
      (0x390, [0x399, 0x308, 0x301]), (0x3B0, [0x3A5, 0x308, 0x301]), (0x587, [0x535, 0x552]),
      (0x1E96, [0x48, 0x331]), (0x1E97, [0x54, 0x308]), (0x1E98, [0x57, 0x30A]),
      (0x1E99, [0x59, 0x30A]), (0x1E9A, [0x41, 0x2BE]), (0x1F50, [0x3A5, 0x313]),
      (0x1F52, [0x3A5, 0x313, 0x300]), (0x1F54, [0x3A5, 0x313, 0x301]), (0x1F56, [0x3A5, 0x313, 0x342]),
      (0x1F80, [0x1F08, 0x399]), (0x1F81, [0x1F09, 0x399]), (0x1F82, [0x1F0A, 0x399]),
      (0x1F83, [0x1F0B, 0x399]), (0x1F84, [0x1F0C, 0x399]), (0x1F85, [0x1F0D, 0x399]),
      (0x1F86, [0x1F0E, 0x399]), (0x1F87, [0x1F0F, 0x399]), (0x1F88, [0x1F08, 0x399]),
      (0x1F89, [0x1F09, 0x399]), (0x1F8A, [0x1F0A, 0x399]), (0x1F8B, [0x1F0B, 0x399]),
      (0x1F8C, [0x1F0C, 0x399]), (0x1F8D, [0x1F0D, 0x399]), (0x1F8E, [0x1F0E, 0x399]),
      (0x1F8F, [0x1F0F, 0x399]), (0x1F90, [0x1F28, 0x399]), (0x1F91, [0x1F29, 0x399]),
      (0x1F92, [0x1F2A, 0x399]), (0x1F93, [0x1F2B, 0x399]), (0x1F94, [0x1F2C, 0x399]),
      (0x1F95, [0x1F2D, 0x399]), (0x1F96, [0x1F2E, 0x399]), (0x1F97, [0x1F2F, 0x399]),
      (0x1F98, [0x1F28, 0x399]), (0x1F99, [0x1F29, 0x399]), (0x1F9A, [0x1F2A, 0x399]),
      (0x1F9B, [0x1F2B, 0x399]), (0x1F9C, [0x1F2C, 0x399]), (0x1F9D, [0x1F2D, 0x399]),
      (0x1F9E, [0x1F2E, 0x399]), (0x1F9F, [0x1F2F, 0x399]), (0x1FA0, [0x1F68, 0x399]),
      (0x1FA1, [0x1F69, 0x399]), (0x1FA2, [0x1F6A, 0x399]), (0x1FA3, [0x1F6B, 0x399]),
      (0x1FA4, [0x1F6C, 0x399]), (0x1FA5, [0x1F6D, 0x399]), (0x1FA6, [0x1F6E, 0x399]),
      (0x1FA7, [0x1F6F, 0x399]), (0x1FA8, [0x1F68, 0x399]), (0x1FA9, [0x1F69, 0x399]),
      (0x1FAA, [0x1F6A, 0x399]), (0x1FAB, [0x1F6B, 0x399]), (0x1FAC, [0x1F6C, 0x399]),
      (0x1FAD, [0x1F6D, 0x399]), (0x1FAE, [0x1F6E, 0x399]), (0x1FAF, [0x1F6F, 0x399]),
      (0x1FB2, [0x1FBA, 0x399]), (0x1FB3, [0x391, 0x399]), (0x1FB4, [0x386, 0x399]),
      (0x1FB6, [0x391, 0x342]), (0x1FB7, [0x391, 0x342, 0x399]), (0x1FBC, [0x391, 0x399]),
      (0x1FC2, [0x1FCA, 0x399]), (0x1FC3, [0x397, 0x399]), (0x1FC4, [0x389, 0x399]),
      (0x1FC6, [0x397, 0x342]), (0x1FC7, [0x397, 0x342, 0x399]), (0x1FCC, [0x397, 0x399]),
      (0x1FD2, [0x399, 0x308, 0x300]), (0x1FD3, [0x399, 0x308, 0x301]), (0x1FD6, [0x399, 0x342]),
      (0x1FD7, [0x399, 0x308, 0x342]), (0x1FE2, [0x3A5, 0x308, 0x300]), (0x1FE3, [0x3A5, 0x308, 0x301]),
      (0x1FE4, [0x3A1, 0x313]), (0x1FE6, [0x3A5, 0x342]), (0x1FE7, [0x3A5, 0x308, 0x342]),
      (0x1FF2, [0x1FFA, 0x399]), (0x1FF3, [0x3A9, 0x399]), (0x1FF4, [0x38F, 0x399]),
      (0x1FF6, [0x3A9, 0x342]), (0x1FF7, [0x3A9, 0x342, 0x399]), (0x1FFC, [0x3A9, 0x399]),
      (0xFB00, [0x46, 0x46]), (0xFB01, [0x46, 0x49]), (0xFB02, [0x46, 0x4C]),
      (0xFB03, [0x46, 0x46, 0x49]), (0xFB04, [0x46, 0x46, 0x4C]), (0xFB05, [0x53, 0x54]),
      (0xFB06, [0x53, 0x54]), (0xFB13, [0x544, 0x546]), (0xFB14, [0x544, 0x535]),
      (0xFB15, [0x544, 0x53B]), (0xFB16, [0x54E, 0x546]), (0xFB17, [0x544, 0x53D])]"

fun in_ranges :: "(int \<times> int \<times> int \<times> int) list \<Rightarrow> int \<Rightarrow> int option" where
  "in_ranges [] cp = None"
| "in_ranges ((lo, hi, stride, img) # rs) cp =
     (if lo \<le> cp \<and> cp \<le> hi \<and> (cp - lo) mod stride = 0
      then Some (img + (cp - lo))
      else in_ranges rs cp)"

definition toUppercase :: "int \<Rightarrow> int list" where
  "toUppercase cp =
     (case in_ranges toUppercase_ranges cp of
        Some u \<Rightarrow> [u]
      | None \<Rightarrow> (case map_of toUppercase_special cp of Some us \<Rightarrow> us | None \<Rightarrow> [cp]))"

definition toUpperCase :: "jsstring \<Rightarrow> jsstring" where
  "toUpperCase s = CodePointsToString (concat (map toUppercase (StringToCodePoints s)))"

subsection \<open>\<^verbatim>\<open>String.prototype.trim\<close>\<close>

text \<open>
  \<^verbatim>\<open>trim\<close> removes white space and line terminators from both ends of the string. These
  are the code units TAB, LF, VT, FF, CR, the space, the no-break space, the byte order
  mark U+FEFF, the separators U+2028 and U+2029 and the other space separators of
  Unicode 14.0 (U+1680, U+2000 to U+200A, U+202F, U+205F, U+3000); all of them are single
  code units.
\<close>

definition isWhiteSpace :: "int \<Rightarrow> bool" where
  "isWhiteSpace c =
     ((0x9 \<le> c \<and> c \<le> 0xD) \<or> c = 0x20 \<or> c = 0xA0 \<or> c = 0x1680 \<or>
      (0x2000 \<le> c \<and> c \<le> 0x200A) \<or> c = 0x2028 \<or> c = 0x2029 \<or> c = 0x202F \<or>
      c = 0x205F \<or> c = 0x3000 \<or> c = 0xFEFF)"

definition trim :: "jsstring \<Rightarrow> jsstring" where
  "trim s = rev (dropWhile isWhiteSpace (rev (dropWhile isWhiteSpace s)))"

subsection \<open>\<^verbatim>\<open>Array.prototype.findIndex\<close>\<close>

text \<open>
  The index of the first element that satisfies the predicate, and \<open>-1\<close> when there is
  none.
\<close>

fun findIndex_from :: "('a \<Rightarrow> bool) \<Rightarrow> 'a list \<Rightarrow> int \<Rightarrow> int" where
  "findIndex_from p [] k = - 1"
| "findIndex_from p (x # xs) k = (if p x then k else findIndex_from p xs (k + 1))"

definition findIndex :: "('a \<Rightarrow> bool) \<Rightarrow> 'a list \<Rightarrow> int" where
  "findIndex p xs = findIndex_from p xs 0"


section \<open>The class creation modal (class-create-modal.vue)\<close>

text \<open>
  A classroom is an object with a \<^verbatim>\<open>name\<close>; the component reads no other field. The
  component instance holds the \<^verbatim>\<open>classes\<close> prop and the \<^verbatim>\<open>name\<close> of \<^verbatim>\<open>data()\<close>.
\<close>

record classroom =
  name :: jsstring

record modal =
  classes :: "classroom list"
  name :: jsstring

text \<open>
  \<^verbatim>\<open>data()\<close> returns \<^verbatim>\<open>{ name: '' }\<close>, the empty string; the prop comes from the parent.
\<close>

definition data :: "classroom list \<Rightarrow> modal" where
  "data classes_prop = \<lparr>classes = classes_prop, name = []\<rparr>"

text \<open>
  The two actions of \<^verbatim>\<open>vuex.actions\<close> come from the module \<^verbatim>\<open>../../state/actions\<close>, which
  is not part of the component. They are a parameter of the model: each action takes its
  argument and the store, and either throws or returns the store it leaves behind.
\<close>

datatype error = Thrown string

record 'w actions =
  createClass :: "jsstring \<Rightarrow> 'w \<Rightarrow> error + 'w"
  displayModal :: "bool \<Rightarrow> 'w \<Rightarrow> error + 'w"

text \<open>The computed property \<^verbatim>\<open>duplicateName\<close>.\<close>

definition duplicateName :: "modal \<Rightarrow> bool" where
  "duplicateName this =
     (let index = findIndex
            (\<lambda>classroom. toUpperCase (classroom.name classroom) = toUpperCase (modal.name this))
            (classes this)
      in if index = - 1 then False else True)"

text \<open>
  The methods. A method returns the component instance and the store as it leaves them;
  an exception of an action passes through the method to its caller.
\<close>

definition createNewClass :: "'w actions \<Rightarrow> modal \<Rightarrow> 'w \<Rightarrow> error + modal \<times> 'w" where
  "createNewClass acts this store =
     (if \<not> duplicateName this
      then (case createClass acts (modal.name this) store of
              Inl e \<Rightarrow> Inl e
            | Inr store' \<Rightarrow> Inr (this, store'))
      else Inr (this, store))"

definition close :: "'w actions \<Rightarrow> modal \<Rightarrow> 'w \<Rightarrow> error + modal \<times> 'w" where
  "close acts this store =
     (case displayModal acts False store of
        Inl e \<Rightarrow> Inl e
      | Inr store' \<Rightarrow> Inr (this, store'))"

text \<open>
  The template binds four events: \<^verbatim>\<open>@cancel="close"\<close> on the modal shell,
  \<^verbatim>\<open>@click="close"\<close> on the cancel button, \<^verbatim>\<open>@submit.prevent="createNewClass"\<close> on the
  form, and \<^verbatim>\<open>v-model.trim="name"\<close> on the text box, which stores the trimmed input in
  \<^verbatim>\<open>name\<close>.
\<close>

datatype event = ModalCancel | CancelClick | Submit | Input jsstring

fun handle :: "'w actions \<Rightarrow> event \<Rightarrow> modal \<Rightarrow> 'w \<Rightarrow> error + modal \<times> 'w" where
  "handle acts ModalCancel this store = close acts this store"
| "handle acts CancelClick this store = close acts this store"
| "handle acts Submit this store = createNewClass acts this store"
| "handle acts (Input v) this store = Inr (this\<lparr>modal.name := trim v\<rparr>, store)"

text \<open>
  To count the invocations of the actions, the store is instantiated by the list of the
  calls made so far: each action appends its own call and returns.
\<close>

datatype call = CreateClass jsstring | DisplayModal bool

definition recording :: "call list actions" where
  "recording =
     \<lparr>createClass = (\<lambda>n log. Inr (log @ [CreateClass n])),
      displayModal = (\<lambda>v log. Inr (log @ [DisplayModal v]))\<rparr>"

text \<open>The other extreme: both actions throw whenever they are invoked.\<close>

definition throwing :: "'w actions" where
  "throwing =
     \<lparr>createClass = (\<lambda>n store. Inl (Thrown ''createClass'')),
      displayModal = (\<lambda>v store. Inl (Thrown ''displayModal''))\<rparr>"


section \<open>The item list report page (item-list-page.vue)\<close>

text \<open>
  A report row as the template and \<^verbatim>\<open>genRowLink\<close> read it. Progress values and dates are
  only handed on to the cells, so their types are left open.
\<close>

record ('n, 'd) row =
  id' :: string
  kind :: string
  title :: string
  exerciseCount :: int
  contentCount :: int
  exerciseProgress :: 'n
  contentProgress :: 'n
  lastActive :: 'd

record pageState =
  channelId :: string

text \<open>The getters of \<^verbatim>\<open>vuex.getters\<close> that the table and \<^verbatim>\<open>genRowLink\<close> read.\<close>

record ('n, 'd) page =
  classId :: string
  pageState :: pageState
  standardDataTable :: "('n, 'd) row list"

text \<open>
  The constants come from the modules \<^verbatim>\<open>kolibri.coreVue.vuex.constants\<close> and
  \<^verbatim>\<open>../../constants\<close>, which are not part of the component; they are parameters.
\<close>

record ContentNodeKinds =
  TOPIC :: string

record PageNames =
  TOPIC_ITEM_LIST :: string
  TOPIC_LEARNERS_FOR_ITEM :: string

text \<open>
  A navigation target: the page name and the \<^verbatim>\<open>params\<close> object, whose properties are
  kept in the order of the object literal.
\<close>

record link =
  name :: string
  params :: "(string \<times> string) list"

definition genRowLink ::
  "ContentNodeKinds \<Rightarrow> PageNames \<Rightarrow> ('n, 'd) page \<Rightarrow> ('n, 'd) row \<Rightarrow> link" where
  "genRowLink kinds names this row =
     (if row.kind row = TOPIC kinds
      then \<lparr>link.name = TOPIC_ITEM_LIST names,
            params = [(''classId'', classId this),
                      (''channelId'', channelId (pageState this)),
                      (''topicId'', id' row)]\<rparr>
      else \<lparr>link.name = TOPIC_LEARNERS_FOR_ITEM names,
            params = [(''classId'', classId this),
                      (''channelId'', channelId (pageState this)),
                      (''contentId'', id' row)]\<rparr>)"

text \<open>
  The body of the table: one \<^verbatim>\<open>tr\<close> for each row of \<^verbatim>\<open>standardDataTable\<close>, keyed by the
  row's id, holding a name cell, two progress cells and an activity cell. The name cell's
  slot holds the two localised counts; \<^verbatim>\<open>$tr\<close> is the localisation lookup, a parameter.
\<close>

datatype ('n, 'd) cell =
    NameCell string string link "string list"
  | ProgressCell 'n bool
  | ActivityCell 'd

record ('n, 'd) table_row =
  key :: string
  cells :: "('n, 'd) cell list"

definition tbody ::
  "(string \<Rightarrow> int \<Rightarrow> string) \<Rightarrow> ContentNodeKinds \<Rightarrow> PageNames \<Rightarrow> ('n, 'd) page
     \<Rightarrow> ('n, 'd) table_row list" where
  "tbody tr kinds names this =
     map (\<lambda>row.
           \<lparr>key = id' row,
            cells = [NameCell (row.kind row) (row.title row) (genRowLink kinds names this row)
                       [tr ''exerciseCountText'' (row.exerciseCount row),
                        tr ''contentCountText'' (row.contentCount row)],
                     ProgressCell (exerciseProgress row) True,
                     ProgressCell (contentProgress row) False,
                     ActivityCell (lastActive row)]\<rparr>)
         (standardDataTable this)"


section \<open>Properties of the library functions\<close>

lemma findIndex_from_none:
  "0 \<le> k \<Longrightarrow> (findIndex_from p xs k = - 1) = (\<forall>x \<in> set xs. \<not> p x)"
proof (induction xs arbitrary: k)
  case Nil
  then show ?case by simp
next
  case (Cons x xs)
  from Cons.prems have k1: "0 \<le> k + 1" by simp
  show ?case
  proof (cases "p x")
    case True
    with Cons.prems show ?thesis by simp
  next
    case False
    with Cons.IH [OF k1] show ?thesis by simp
  qed
qed

lemma findIndex_none: "(findIndex p xs = - 1) = (\<forall>x \<in> set xs. \<not> p x)"
  unfolding findIndex_def by (rule findIndex_from_none) simp

text \<open>
  Stripping the end of a list cuts off a suffix, so a list that starts with a character
  that stays keeps its start.
\<close>

lemma strip_end_split: "xs = rev (dropWhile P (rev xs)) @ rev (takeWhile P (rev xs))"
proof -
  have "rev (dropWhile P (rev xs)) @ rev (takeWhile P (rev xs))
          = rev (takeWhile P (rev xs) @ dropWhile P (rev xs))"
    by (simp only: rev_append)
  also have "\<dots> = rev (rev xs)"
    by (simp only: takeWhile_dropWhile_id)
  finally show ?thesis by simp
qed

lemma strip_end_keeps_start:
  assumes "xs = [] \<or> \<not> P (hd xs)"
  shows "dropWhile P (rev (dropWhile P (rev xs))) = rev (dropWhile P (rev xs))"
proof (cases "rev (dropWhile P (rev xs)) = []")
  case True
  then show ?thesis by (simp only: dropWhile.simps)
next
  case False
  have "hd (rev (dropWhile P (rev xs)) @ rev (takeWhile P (rev xs)))
          = hd (rev (dropWhile P (rev xs)))"
    using False by (rule hd_append2)
  then have h: "hd xs = hd (rev (dropWhile P (rev xs)))"
    using strip_end_split [of xs P] by simp
  from False have "xs \<noteq> []" by auto
  with assms h have "\<not> P (hd (rev (dropWhile P (rev xs))))" by simp
  then show ?thesis by (simp only: dropWhile_eq_self_iff) simp
qed

lemma trim_start: "dropWhile isWhiteSpace (trim s) = trim s"
proof -
  have "dropWhile isWhiteSpace s = [] \<or> \<not> isWhiteSpace (hd (dropWhile isWhiteSpace s))"
    using hd_dropWhile [of isWhiteSpace s] by blast
  then show ?thesis
    unfolding trim_def by (rule strip_end_keeps_start)
qed

lemma trim_idem: "trim (trim s) = trim s"
proof -
  have "trim (trim s) = rev (dropWhile isWhiteSpace (rev (dropWhile isWhiteSpace (trim s))))"
    by (simp only: trim_def)
  also have "\<dots> = rev (dropWhile isWhiteSpace (rev (trim s)))"
    by (simp only: trim_start)
  also have "\<dots> = trim s"
    by (simp add: trim_def)
  finally show ?thesis .
qed

text \<open>A trimmed string neither starts nor ends with white space.\<close>

lemma trim_ends:
  "trim s = [] \<or> (\<not> isWhiteSpace (hd (trim s)) \<and> \<not> isWhiteSpace (last (trim s)))"
proof (cases "trim s = []")
  case True
  then show ?thesis by simp
next
  case False
  from trim_start [of s] have "\<not> isWhiteSpace (hd (trim s))"
    using False by (simp only: dropWhile_eq_self_iff) simp
  moreover have "\<not> isWhiteSpace (last (trim s))"
  proof -
    from False have ne: "dropWhile isWhiteSpace (rev (dropWhile isWhiteSpace s)) \<noteq> []"
      by (simp add: trim_def)
    then have "\<not> isWhiteSpace (hd (dropWhile isWhiteSpace (rev (dropWhile isWhiteSpace s))))"
      by (rule hd_dropWhile)
    with ne show ?thesis by (simp add: trim_def last_rev)
  qed
  ultimately show ?thesis by simp
qed

text \<open>What trimming removes is white space: a run in front and a run behind.\<close>

lemma trim_split:
  "s = takeWhile isWhiteSpace s @ trim s
         @ rev (takeWhile isWhiteSpace (rev (dropWhile isWhiteSpace s)))"
proof -
  have "dropWhile isWhiteSpace s
          = trim s @ rev (takeWhile isWhiteSpace (rev (dropWhile isWhiteSpace s)))"
    unfolding trim_def by (rule strip_end_split)
  then have "takeWhile isWhiteSpace s @ dropWhile isWhiteSpace s
          = takeWhile isWhiteSpace s @ trim s
              @ rev (takeWhile isWhiteSpace (rev (dropWhile isWhiteSpace s)))"
    by (rule arg_cong)
  then show ?thesis by (simp only: takeWhile_dropWhile_id)
qed

lemma trim_removes_white_space:
  "\<exists>a b. s = a @ trim s @ b \<and> (\<forall>c \<in> set a. isWhiteSpace c) \<and> (\<forall>c \<in> set b. isWhiteSpace c)"
proof -
  let ?a = "takeWhile isWhiteSpace s"
  let ?b = "rev (takeWhile isWhiteSpace (rev (dropWhile isWhiteSpace s)))"
  have "s = ?a @ trim s @ ?b" by (rule trim_split)
  moreover have "\<forall>c \<in> set ?a. isWhiteSpace c" by (auto dest: set_takeWhileD)
  moreover have "\<forall>c \<in> set ?b. isWhiteSpace c" by (auto dest: set_takeWhileD)
  ultimately show ?thesis by blast
qed


section \<open>Properties of the class creation modal\<close>

lemma duplicateName_iff:
  "duplicateName this =
     (\<exists>c \<in> set (classes this). toUpperCase (classroom.name c) = toUpperCase (modal.name this))"
  by (simp add: duplicateName_def Let_def findIndex_none)

lemma recording_createClass: "createClass recording n log = Inr (log @ [CreateClass n])"
  by (simp add: recording_def)

lemma recording_displayModal: "displayModal recording v log = Inr (log @ [DisplayModal v])"
  by (simp add: recording_def)

lemma createNewClass_recording:
  "createNewClass recording this log =
     Inr (this, log @ (if duplicateName this then [] else [CreateClass (modal.name this)]))"
  by (simp add: createNewClass_def recording_createClass)

lemma close_recording: "close recording this log = Inr (this, log @ [DisplayModal False])"
  by (simp add: close_def recording_displayModal)

lemma createNewClass_frame:
  "createNewClass acts this store = Inr (this', store') \<Longrightarrow> this' = this"
  by (auto simp: createNewClass_def split: if_splits sum.splits)

lemma close_frame: "close acts this store = Inr (this', store') \<Longrightarrow> this' = this"
  by (auto simp: close_def split: sum.splits)

text \<open>
  The examples: the names \<^verbatim>\<open>Math\<close>, \<^verbatim>\<open>math\<close> and \<^verbatim>\<open>Science\<close>, a name with an accented
  letter (\<^verbatim>\<open>caf\<close> followed by U+00E9, against \<^verbatim>\<open>CAF\<close> followed by U+00C9) and a name whose
  upper-case form is longer than the name (\<^verbatim>\<open>stra\<close>, U+00DF, \<^verbatim>\<open>e\<close>, against
  \<^verbatim>\<open>STRASSE\<close>).
\<close>

lemma toUpperCase_Math: "toUpperCase (utf16 ''Math'') = utf16 ''MATH''"
  by code_simp

lemma toUpperCase_math: "toUpperCase (utf16 ''math'') = utf16 ''MATH''"
  by code_simp

lemma toUpperCase_Science: "toUpperCase (utf16 ''Science'') = utf16 ''SCIENCE''"
  by code_simp

lemma MATH_not_SCIENCE: "utf16 ''MATH'' \<noteq> utf16 ''SCIENCE''"
  by code_simp

lemma toUpperCase_cafe: "toUpperCase (utf16 ''caf'' @ [0xE9]) = utf16 ''CAF'' @ [0xC9]"
  by code_simp

lemma toUpperCase_CAFE: "toUpperCase (utf16 ''CAF'' @ [0xC9]) = utf16 ''CAF'' @ [0xC9]"
  by code_simp

lemma toUpperCase_strasse:
  "toUpperCase (utf16 ''stra'' @ 0xDF # utf16 ''e'') = utf16 ''STRASSE''"
  by code_simp

lemma toUpperCase_STRASSE: "toUpperCase (utf16 ''STRASSE'') = utf16 ''STRASSE''"
  by code_simp

lemma Science_not_duplicate: "\<not> duplicateName \<lparr>classes = [\<lparr>classroom.name = utf16 ''Math''\<rparr>], name = utf16 ''Science''\<rparr>"
  by code_simp

lemma math_duplicate: "duplicateName \<lparr>classes = [\<lparr>classroom.name = utf16 ''Math''\<rparr>], name = utf16 ''math''\<rparr>"
  by code_simp

lemma CAFE_duplicate: "duplicateName \<lparr>classes = [\<lparr>classroom.name = utf16 ''caf'' @ [0xE9]\<rparr>], name = utf16 ''CAF'' @ [0xC9]\<rparr>"
  by code_simp

lemma trim_Science: "trim (utf16 ''  Science '') = utf16 ''Science''"
  by code_simp

lemma trim_math: "trim (0xA0 # utf16 ''math'' @ [0x20, 0xFEFF]) = utf16 ''math''"
  by code_simp

text \<open>
  C1, as the specification states it: for a name that is not a duplicate, submitting the
  form invokes the create action once with that name and then requests once that the
  modal be hidden. With the classrooms \<^verbatim>\<open>[{name: "Math"}]\<close> and the draft name
  \<^verbatim>\<open>"Science"\<close> the name is not a duplicate, and \<^verbatim>\<open>createNewClass\<close> calls
  \<^verbatim>\<open>createClass("Science")\<close> and nothing else: no \<^verbatim>\<open>displayModal(false)\<close> follows.
\<close>

theorem submit_hide_modal_counterexample:
  "\<not> duplicateName \<lparr>classes = [\<lparr>classroom.name = utf16 ''Math''\<rparr>], name = utf16 ''Science''\<rparr> \<and>
   handle recording Submit \<lparr>classes = [\<lparr>classroom.name = utf16 ''Math''\<rparr>], name = utf16 ''Science''\<rparr> []
     = Inr (\<lparr>classes = [\<lparr>classroom.name = utf16 ''Math''\<rparr>], name = utf16 ''Science''\<rparr>, [CreateClass (utf16 ''Science'')]) \<and>
   handle recording Submit \<lparr>classes = [\<lparr>classroom.name = utf16 ''Math''\<rparr>], name = utf16 ''Science''\<rparr> []
     \<noteq> Inr (\<lparr>classes = [\<lparr>classroom.name = utf16 ''Math''\<rparr>], name = utf16 ''Science''\<rparr>,
            [CreateClass (utf16 ''Science''), DisplayModal False])"
  using Science_not_duplicate by (simp add: createNewClass_recording)

text \<open>
  C1, amended: for every classroom list and every draft name that is not a duplicate,
  submitting the form invokes the create action exactly once, with that name, and makes
  no other call of an action; the submit handler itself requests no hiding of the modal.
\<close>

theorem submit_creates_once:
  "\<not> duplicateName this \<Longrightarrow>
   handle recording Submit this log = Inr (this, log @ [CreateClass (modal.name this)])"
  by (simp add: createNewClass_recording)

theorem submit_creates_once_witness:
  "\<not> duplicateName \<lparr>classes = [\<lparr>classroom.name = utf16 ''Math''\<rparr>], name = utf16 ''Science''\<rparr> \<and>
   handle recording Submit \<lparr>classes = [\<lparr>classroom.name = utf16 ''Math''\<rparr>], name = utf16 ''Science''\<rparr> [DisplayModal True]
     = Inr (\<lparr>classes = [\<lparr>classroom.name = utf16 ''Math''\<rparr>], name = utf16 ''Science''\<rparr>, [DisplayModal True, CreateClass (utf16 ''Science'')])"
  using submit_creates_once [OF Science_not_duplicate, of "[DisplayModal True]"]
        Science_not_duplicate
  by simp

text \<open>
  C2: for every classroom list \<open>L\<close> and every candidate name \<open>n\<close>, the duplicate-name
  check is true if and only if the upper-case form of \<open>n\<close> equals the upper-case form of
  the name of some classroom of \<open>L\<close>.
\<close>

theorem duplicateName_case_insensitive:
  "duplicateName \<lparr>classes = L, name = n\<rparr> =
     (\<exists>c \<in> set L. toUpperCase (classroom.name c) = toUpperCase n)"
  by (simp add: duplicateName_iff)

theorem duplicateName_case_insensitive_witness:
  "duplicateName \<lparr>classes = [\<lparr>classroom.name = utf16 ''Math''\<rparr>], name = utf16 ''math''\<rparr> \<and>
   \<not> duplicateName \<lparr>classes = [\<lparr>classroom.name = utf16 ''Math''\<rparr>], name = utf16 ''Science''\<rparr> \<and>
   duplicateName \<lparr>classes = [\<lparr>classroom.name = utf16 ''caf'' @ [0xE9]\<rparr>], name = utf16 ''CAF'' @ [0xC9]\<rparr> \<and>
   duplicateName \<lparr>classes = [\<lparr>classroom.name = utf16 ''stra'' @ 0xDF # utf16 ''e''\<rparr>], name = utf16 ''STRASSE''\<rparr>"
  using duplicateName_case_insensitive [of "[\<lparr>classroom.name = utf16 ''Math''\<rparr>]" "utf16 ''math''"]
        duplicateName_case_insensitive [of "[\<lparr>classroom.name = utf16 ''Math''\<rparr>]" "utf16 ''Science''"]
        duplicateName_case_insensitive
          [of "[\<lparr>classroom.name = utf16 ''caf'' @ [0xE9]\<rparr>]" "utf16 ''CAF'' @ [0xC9]"]
        duplicateName_case_insensitive
          [of "[\<lparr>classroom.name = utf16 ''stra'' @ 0xDF # utf16 ''e''\<rparr>]" "utf16 ''STRASSE''"]
  by (simp add: toUpperCase_Math toUpperCase_math toUpperCase_Science MATH_not_SCIENCE
        toUpperCase_cafe toUpperCase_CAFE toUpperCase_strasse toUpperCase_STRASSE)

text \<open>
  C3: for every classroom list and every draft name that is a duplicate, submitting the
  form invokes neither the create action nor any other action, and returns normally:
  whatever the actions are, also when each of them would throw, the handler returns with
  the component and the store as they were.
\<close>

theorem submit_duplicate_blocked:
  "duplicateName this \<Longrightarrow> handle acts Submit this store = Inr (this, store)"
  by (simp add: createNewClass_def)

theorem submit_duplicate_blocked_witness:
  "duplicateName \<lparr>classes = [\<lparr>classroom.name = utf16 ''Math''\<rparr>], name = utf16 ''math''\<rparr> \<and>
   handle recording Submit \<lparr>classes = [\<lparr>classroom.name = utf16 ''Math''\<rparr>], name = utf16 ''math''\<rparr> []
     = Inr (\<lparr>classes = [\<lparr>classroom.name = utf16 ''Math''\<rparr>], name = utf16 ''math''\<rparr>, []) \<and>
   handle throwing Submit \<lparr>classes = [\<lparr>classroom.name = utf16 ''Math''\<rparr>], name = utf16 ''math''\<rparr> ()
     = Inr (\<lparr>classes = [\<lparr>classroom.name = utf16 ''Math''\<rparr>], name = utf16 ''math''\<rparr>, ()) \<and>
   duplicateName \<lparr>classes = [\<lparr>classroom.name = utf16 ''caf'' @ [0xE9]\<rparr>], name = utf16 ''CAF'' @ [0xC9]\<rparr> \<and>
   handle recording Submit \<lparr>classes = [\<lparr>classroom.name = utf16 ''caf'' @ [0xE9]\<rparr>], name = utf16 ''CAF'' @ [0xC9]\<rparr> []
     = Inr (\<lparr>classes = [\<lparr>classroom.name = utf16 ''caf'' @ [0xE9]\<rparr>], name = utf16 ''CAF'' @ [0xC9]\<rparr>, [])"
  using submit_duplicate_blocked [OF math_duplicate, of recording "[]"]
        submit_duplicate_blocked [OF math_duplicate, of throwing "()"]
        submit_duplicate_blocked [OF CAFE_duplicate, of recording "[]"]
        math_duplicate CAFE_duplicate
  by simp

text \<open>
  C4: in every state, cancelling the modal, by the cancel button or by the modal's own
  cancel signal, makes exactly one call, \<^verbatim>\<open>displayModal(false)\<close>, and so never invokes
  the create action.
\<close>

theorem cancel_hides_once:
  "handle recording ModalCancel this log = Inr (this, log @ [DisplayModal False]) \<and>
   handle recording CancelClick this log = Inr (this, log @ [DisplayModal False])"
  by (simp add: close_recording)

theorem cancel_hides_once_witness:
  "handle recording ModalCancel \<lparr>classes = [\<lparr>classroom.name = utf16 ''Math''\<rparr>], name = utf16 ''math''\<rparr> []
     = Inr (\<lparr>classes = [\<lparr>classroom.name = utf16 ''Math''\<rparr>], name = utf16 ''math''\<rparr>, [DisplayModal False]) \<and>
   handle recording CancelClick \<lparr>classes = [], name = utf16 ''Science''\<rparr>
       [CreateClass (utf16 ''Art'')]
     = Inr (\<lparr>classes = [], name = utf16 ''Science''\<rparr>,
            [CreateClass (utf16 ''Art''), DisplayModal False])"
  using cancel_hides_once [of "\<lparr>classes = [\<lparr>classroom.name = utf16 ''Math''\<rparr>], name = utf16 ''math''\<rparr>" "[]"]
        cancel_hides_once [of "\<lparr>classes = [], name = utf16 ''Science''\<rparr>"
                              "[CreateClass (utf16 ''Art'')]"]
  by simp

text \<open>
  C6: the draft name is the trimmed form of the text typed into the text box: an input
  stores the input without the white space in front of it and behind it, a string that
  neither starts nor ends with white space. The duplicate check and the create action
  read the draft name, so a submission after the input compares the trimmed string with
  the classroom names and, when it is no duplicate, passes the trimmed string to the
  create action.
\<close>

theorem draft_name_trimmed:
  "handle acts (Input v) this store = Inr (this\<lparr>modal.name := trim v\<rparr>, store) \<and>
   (\<exists>a b. v = a @ trim v @ b \<and> (\<forall>c \<in> set a. isWhiteSpace c) \<and> (\<forall>c \<in> set b. isWhiteSpace c)) \<and>
   (trim v = [] \<or> (\<not> isWhiteSpace (hd (trim v)) \<and> \<not> isWhiteSpace (last (trim v)))) \<and>
   duplicateName (this\<lparr>modal.name := trim v\<rparr>) =
     (\<exists>c \<in> set (classes this). toUpperCase (classroom.name c) = toUpperCase (trim v)) \<and>
   handle recording Submit (this\<lparr>modal.name := trim v\<rparr>) log =
     Inr (this\<lparr>modal.name := trim v\<rparr>,
          log @ (if duplicateName (this\<lparr>modal.name := trim v\<rparr>) then []
                 else [CreateClass (trim v)]))"
proof (intro conjI)
  show "handle acts (Input v) this store = Inr (this\<lparr>modal.name := trim v\<rparr>, store)"
    by simp
  show "\<exists>a b. v = a @ trim v @ b \<and> (\<forall>c \<in> set a. isWhiteSpace c) \<and> (\<forall>c \<in> set b. isWhiteSpace c)"
    by (rule trim_removes_white_space)
  show "trim v = [] \<or> (\<not> isWhiteSpace (hd (trim v)) \<and> \<not> isWhiteSpace (last (trim v)))"
    by (rule trim_ends)
  show "duplicateName (this\<lparr>modal.name := trim v\<rparr>) =
          (\<exists>c \<in> set (classes this). toUpperCase (classroom.name c) = toUpperCase (trim v))"
    by (simp add: duplicateName_iff)
  show "handle recording Submit (this\<lparr>modal.name := trim v\<rparr>) log =
          Inr (this\<lparr>modal.name := trim v\<rparr>,
               log @ (if duplicateName (this\<lparr>modal.name := trim v\<rparr>) then []
                      else [CreateClass (trim v)]))"
    by (simp add: createNewClass_recording)
qed

theorem draft_name_trimmed_witness:
  "handle throwing (Input (utf16 ''  Science '')) (data [\<lparr>classroom.name = utf16 ''Math''\<rparr>]) ()
     = Inr (\<lparr>classes = [\<lparr>classroom.name = utf16 ''Math''\<rparr>], name = utf16 ''Science''\<rparr>, ()) \<and>
   handle recording Submit \<lparr>classes = [\<lparr>classroom.name = utf16 ''Math''\<rparr>], name = utf16 ''Science''\<rparr> []
     = Inr (\<lparr>classes = [\<lparr>classroom.name = utf16 ''Math''\<rparr>], name = utf16 ''Science''\<rparr>, [CreateClass (utf16 ''Science'')]) \<and>
   handle throwing (Input (0xA0 # utf16 ''math'' @ [0x20, 0xFEFF]))
       (data [\<lparr>classroom.name = utf16 ''Math''\<rparr>]) ()
     = Inr (\<lparr>classes = [\<lparr>classroom.name = utf16 ''Math''\<rparr>], name = utf16 ''math''\<rparr>, ()) \<and>
   handle recording Submit \<lparr>classes = [\<lparr>classroom.name = utf16 ''Math''\<rparr>], name = utf16 ''math''\<rparr> []
     = Inr (\<lparr>classes = [\<lparr>classroom.name = utf16 ''Math''\<rparr>], name = utf16 ''math''\<rparr>, [])"
  using draft_name_trimmed
          [of throwing "utf16 ''  Science ''" "data [\<lparr>classroom.name = utf16 ''Math''\<rparr>]" "()" "[]"]
        draft_name_trimmed
          [of throwing "0xA0 # utf16 ''math'' @ [0x20, 0xFEFF]"
              "data [\<lparr>classroom.name = utf16 ''Math''\<rparr>]" "()" "[]"]
        Science_not_duplicate math_duplicate
  by (simp add: trim_Science trim_math data_def)

text \<open>
  C8: when the classroom list is empty, the duplicate check is false for every draft
  name, the empty string included, so every submission of the form invokes the create
  action with the draft name.
\<close>

theorem empty_classes_always_creates:
  "classes this = [] \<Longrightarrow>
   \<not> duplicateName this \<and>
   handle recording Submit this log = Inr (this, log @ [CreateClass (modal.name this)])"
  by (simp add: duplicateName_iff createNewClass_recording)

theorem empty_classes_always_creates_witness:
  "classes (data []) = [] \<and> modal.name (data []) = [] \<and> \<not> duplicateName (data []) \<and>
   handle recording Submit (data []) [] = Inr (data [], [CreateClass []])"
proof -
  have e: "classes (data []) = []" by (simp add: data_def)
  have n: "modal.name (data []) = []" by (simp add: data_def)
  from empty_classes_always_creates [OF e, of "[]"] e n show ?thesis by simp
qed

text \<open>
  C9: submitting and cancelling leave the \<^verbatim>\<open>classes\<close> prop and the draft name as they
  were: the component instance that the handler returns is the one it was given, whatever
  the actions do. What the handlers do is to invoke actions: the calls they add to the
  record are calls of \<^verbatim>\<open>createClass\<close> with the draft name or of \<^verbatim>\<open>displayModal(false)\<close>.
\<close>

theorem handlers_frame:
  "ev \<in> {Submit, ModalCancel, CancelClick} \<Longrightarrow>
   (\<exists>cs. handle recording ev this log = Inr (this, log @ cs) \<and>
         set cs \<subseteq> {CreateClass (modal.name this), DisplayModal False}) \<and>
   (\<forall>this' store'. handle acts ev this store = Inr (this', store') \<longrightarrow> this' = this)"
  by (auto simp: createNewClass_recording close_recording
           dest: createNewClass_frame close_frame)

theorem handlers_frame_witness:
  "Submit \<in> {Submit, ModalCancel, CancelClick} \<and>
   handle recording Submit \<lparr>classes = [\<lparr>classroom.name = utf16 ''Math''\<rparr>], name = utf16 ''Science''\<rparr> []
     = Inr (\<lparr>classes = [\<lparr>classroom.name = utf16 ''Math''\<rparr>], name = utf16 ''Science''\<rparr>, [CreateClass (utf16 ''Science'')]) \<and>
   handle recording CancelClick \<lparr>classes = [\<lparr>classroom.name = utf16 ''Math''\<rparr>], name = utf16 ''Science''\<rparr> []
     = Inr (\<lparr>classes = [\<lparr>classroom.name = utf16 ''Math''\<rparr>], name = utf16 ''Science''\<rparr>, [DisplayModal False])"
proof -
  have s: "Submit \<in> {Submit, ModalCancel, CancelClick}" by simp
  have c: "CancelClick \<in> {Submit, ModalCancel, CancelClick}" by simp
  from handlers_frame [OF s, of "\<lparr>classes = [\<lparr>classroom.name = utf16 ''Math''\<rparr>], name = utf16 ''Science''\<rparr>" "[]" throwing "()"]
       handlers_frame [OF c, of "\<lparr>classes = [\<lparr>classroom.name = utf16 ''Math''\<rparr>], name = utf16 ''Science''\<rparr>" "[]" throwing "()"]
  show ?thesis
    using Science_not_duplicate by (simp add: createNewClass_recording close_recording)
qed


section \<open>Properties of the item list report page\<close>

lemma tbody_length: "length (tbody tr kinds names this) = length (standardDataTable this)"
  by (simp add: tbody_def)

text \<open>
  C5: for every report row, the row link is the topic drill-down descriptor, with the
  row's id as \<^verbatim>\<open>topicId\<close>, if and only if the row's kind equals the topic kind constant,
  and it is the per-item learner descriptor, with the row's id as \<^verbatim>\<open>contentId\<close>, if and
  only if it does not; in both cases the \<^verbatim>\<open>classId\<close> and the \<^verbatim>\<open>channelId\<close> of the
  params are those of the page.
\<close>

theorem genRowLink_target:
  "(genRowLink kinds names this row =
      \<lparr>link.name = TOPIC_ITEM_LIST names,
       params = [(''classId'', classId this),
                 (''channelId'', channelId (pageState this)),
                 (''topicId'', id' row)]\<rparr>)
     = (row.kind row = TOPIC kinds) \<and>
   (genRowLink kinds names this row =
      \<lparr>link.name = TOPIC_LEARNERS_FOR_ITEM names,
       params = [(''classId'', classId this),
                 (''channelId'', channelId (pageState this)),
                 (''contentId'', id' row)]\<rparr>)
     = (row.kind row \<noteq> TOPIC kinds) \<and>
   map_of (params (genRowLink kinds names this row)) ''classId'' = Some (classId this) \<and>
   map_of (params (genRowLink kinds names this row)) ''channelId''
     = Some (channelId (pageState this))"
  by (simp add: genRowLink_def)

theorem genRowLink_target_witness:
  "genRowLink \<lparr>TOPIC = ''topic''\<rparr>
      \<lparr>TOPIC_ITEM_LIST = ''TOPIC_ITEM_LIST'', TOPIC_LEARNERS_FOR_ITEM = ''TOPIC_LEARNERS_FOR_ITEM''\<rparr>
      \<lparr>classId = ''7'', pageState = \<lparr>channelId = ''c1''\<rparr>,
        standardDataTable = ([] :: (int, unit) row list)\<rparr>
      \<lparr>id' = ''t9'', kind = ''topic'', title = ''Algebra'', exerciseCount = 2, contentCount = 3,
        exerciseProgress = (0::int), contentProgress = 0, lastActive = ()\<rparr>
   = \<lparr>link.name = ''TOPIC_ITEM_LIST'',
      params = [(''classId'', ''7''), (''channelId'', ''c1''), (''topicId'', ''t9'')]\<rparr> \<and>
   genRowLink \<lparr>TOPIC = ''topic''\<rparr>
      \<lparr>TOPIC_ITEM_LIST = ''TOPIC_ITEM_LIST'', TOPIC_LEARNERS_FOR_ITEM = ''TOPIC_LEARNERS_FOR_ITEM''\<rparr>
      \<lparr>classId = ''7'', pageState = \<lparr>channelId = ''c1''\<rparr>,
        standardDataTable = ([] :: (int, unit) row list)\<rparr>
      \<lparr>id' = ''v4'', kind = ''video'', title = ''Intro'', exerciseCount = 0, contentCount = 1,
        exerciseProgress = (0::int), contentProgress = 0, lastActive = ()\<rparr>
   \<noteq> \<lparr>link.name = ''TOPIC_ITEM_LIST'',
      params = [(''classId'', ''7''), (''channelId'', ''c1''), (''topicId'', ''v4'')]\<rparr>"
  using genRowLink_target [of "\<lparr>TOPIC = ''topic''\<rparr>"
      "\<lparr>TOPIC_ITEM_LIST = ''TOPIC_ITEM_LIST'', TOPIC_LEARNERS_FOR_ITEM = ''TOPIC_LEARNERS_FOR_ITEM''\<rparr>"
      "\<lparr>classId = ''7'', pageState = \<lparr>channelId = ''c1''\<rparr>,
        standardDataTable = ([] :: (int, unit) row list)\<rparr>"
      "\<lparr>id' = ''t9'', kind = ''topic'', title = ''Algebra'', exerciseCount = 2, contentCount = 3,
        exerciseProgress = (0::int), contentProgress = 0, lastActive = ()\<rparr>"]
    genRowLink_target [of "\<lparr>TOPIC = ''topic''\<rparr>"
      "\<lparr>TOPIC_ITEM_LIST = ''TOPIC_ITEM_LIST'', TOPIC_LEARNERS_FOR_ITEM = ''TOPIC_LEARNERS_FOR_ITEM''\<rparr>"
      "\<lparr>classId = ''7'', pageState = \<lparr>channelId = ''c1''\<rparr>,
        standardDataTable = ([] :: (int, unit) row list)\<rparr>"
      "\<lparr>id' = ''v4'', kind = ''video'', title = ''Intro'', exerciseCount = 0, contentCount = 1,
        exerciseProgress = (0::int), contentProgress = 0, lastActive = ()\<rparr>"]
  by simp

text \<open>
  C7: for an empty row list the body of the table has no rows; rendering the body yields
  a list of rows and has no error result.
\<close>

theorem tbody_empty:
  "standardDataTable this = [] \<Longrightarrow> tbody tr kinds names this = []"
  by (simp add: tbody_def)

theorem tbody_empty_witness:
  "standardDataTable \<lparr>classId = ''7'', pageState = \<lparr>channelId = ''c1''\<rparr>,
        standardDataTable = ([] :: (int, unit) row list)\<rparr> = [] \<and>
   tbody (\<lambda>k n. k) \<lparr>TOPIC = ''topic''\<rparr>
      \<lparr>TOPIC_ITEM_LIST = ''TOPIC_ITEM_LIST'', TOPIC_LEARNERS_FOR_ITEM = ''TOPIC_LEARNERS_FOR_ITEM''\<rparr>
      \<lparr>classId = ''7'', pageState = \<lparr>channelId = ''c1''\<rparr>,
        standardDataTable = ([] :: (int, unit) row list)\<rparr> = []"
proof -
  have e: "standardDataTable \<lparr>classId = ''7'', pageState = \<lparr>channelId = ''c1''\<rparr>,
        standardDataTable = ([] :: (int, unit) row list)\<rparr> = []"
    by simp
  from tbody_empty [OF e] e show ?thesis by simp
qed

text \<open>
  C10: \<^verbatim>\<open>genRowLink\<close> returns a descriptor for every row: for a row of any kind other
  than the topic constant, whichever it is, the per-item learner descriptor; and the
  result is always one of the two descriptors, there is no third shape and no error.
\<close>

theorem genRowLink_total:
  "(row.kind row \<noteq> TOPIC kinds \<longrightarrow>
      genRowLink kinds names this row =
      \<lparr>link.name = TOPIC_LEARNERS_FOR_ITEM names,
       params = [(''classId'', classId this),
                 (''channelId'', channelId (pageState this)),
                 (''contentId'', id' row)]\<rparr>) \<and>
   (genRowLink kinds names this row =
      \<lparr>link.name = TOPIC_ITEM_LIST names,
       params = [(''classId'', classId this),
                 (''channelId'', channelId (pageState this)),
                 (''topicId'', id' row)]\<rparr>
    \<or> genRowLink kinds names this row =
      \<lparr>link.name = TOPIC_LEARNERS_FOR_ITEM names,
       params = [(''classId'', classId this),
                 (''channelId'', channelId (pageState this)),
                 (''contentId'', id' row)]\<rparr>)"
  by (simp add: genRowLink_def)

theorem genRowLink_total_witness:
  "''video'' \<noteq> TOPIC \<lparr>TOPIC = ''topic''\<rparr> \<and>
   genRowLink \<lparr>TOPIC = ''topic''\<rparr>
      \<lparr>TOPIC_ITEM_LIST = ''TOPIC_ITEM_LIST'', TOPIC_LEARNERS_FOR_ITEM = ''TOPIC_LEARNERS_FOR_ITEM''\<rparr>
      \<lparr>classId = ''7'', pageState = \<lparr>channelId = ''c1''\<rparr>,
        standardDataTable = ([] :: (int, unit) row list)\<rparr>
      \<lparr>id' = ''v4'', kind = ''video'', title = ''Intro'', exerciseCount = 0, contentCount = 1,
        exerciseProgress = (0::int), contentProgress = 0, lastActive = ()\<rparr>
   = \<lparr>link.name = ''TOPIC_LEARNERS_FOR_ITEM'',
      params = [(''classId'', ''7''), (''channelId'', ''c1''), (''contentId'', ''v4'')]\<rparr>"
  using genRowLink_total [of
      "\<lparr>id' = ''v4'', kind = ''video'', title = ''Intro'', exerciseCount = 0, contentCount = 1,
        exerciseProgress = (0::int), contentProgress = 0, lastActive = ()\<rparr>"
      "\<lparr>TOPIC = ''topic''\<rparr>"
      "\<lparr>TOPIC_ITEM_LIST = ''TOPIC_ITEM_LIST'', TOPIC_LEARNERS_FOR_ITEM = ''TOPIC_LEARNERS_FOR_ITEM''\<rparr>"
      "\<lparr>classId = ''7'', pageState = \<lparr>channelId = ''c1''\<rparr>,
        standardDataTable = ([] :: (int, unit) row list)\<rparr>"]
  by simp

end
